theory Spec2Isabelle
  imports Main "HOL-Library.Sublist"
begin

section \<open>Cluster cost aggregation (costmodel/cluster.go)\<close>

text \<open>
  A shallow embedding of \<^verbatim>\<open>src/costmodel/cluster.go\<close>: the four query templates, the
  two result-shaping functions \<^verbatim>\<open>resultToTotals\<close> and \<^verbatim>\<open>resultToTotal\<close>, and the three
  entry points \<^verbatim>\<open>ClusterCostsForAllClusters\<close>, \<^verbatim>\<open>ClusterCosts\<close> and
  \<^verbatim>\<open>ClusterCostsOverTime\<close>.

  Go errors are modelled by their message (\<^verbatim>\<open>err.Error()\<close>); a function returning
  \<^verbatim>\<open>(T, error)\<close> returns a sum, \<open>Inl\<close> the error. A nil slice and an empty slice are
  both the empty list. What the code does to the outside (queries sent to the metrics
  backend, arguments handed to the cloud provider, log lines) is recorded in an explicit
  \<open>world\<close> that every entry point takes and returns.
\<close>

subsection \<open>Formatting with \<^verbatim>\<open>fmt.Sprintf\<close>\<close>

type_synonym error = string

text \<open>
  \<^verbatim>\<open>fmt.Sprintf\<close> restricted to what the file uses on strings: literal text and the verb
  \<^verbatim>\<open>%s\<close> with string operands (the format strings of \<^verbatim>\<open>cluster.go\<close> are constants
  and hold no other verb). Operands are copied as they are (never scanned for verbs).
  A verb without an operand prints \<^verbatim>\<open>%!s(MISSING)\<close>, operands left over are reported
  as \<^verbatim>\<open>%!(EXTRA string=...)\<close>, as Go does.
\<close>

fun extra_args :: "string list \<Rightarrow> string" where
  "extra_args [] = []"
| "extra_args [a] = ''string='' @ a"
| "extra_args (a # b # as) = ''string='' @ a @ '', '' @ extra_args (b # as)"

fun Sprintf :: "string \<Rightarrow> string list \<Rightarrow> string" where
  "Sprintf [] args = (if args = [] then [] else ''%!(EXTRA '' @ extra_args args @ '')'')"
| "Sprintf [c] args = c # Sprintf [] args"
| "Sprintf (c # d # fmt) args =
     (if c = CHR ''%'' \<and> d = CHR ''s''
      then (case args of
              [] \<Rightarrow> ''%!s(MISSING)'' @ Sprintf fmt []
            | a # as \<Rightarrow> a @ Sprintf fmt as)
      else c # Sprintf (d # fmt) args)"

subsection \<open>The query templates\<close>

text \<open>
  The raw string literals of the source, byte for byte: lines end in a line feed and
  are indented with tabs.
\<close>

abbreviation (input) LF :: string where "LF \<equiv> [CHR 0x0A]"
abbreviation (input) TAB :: string where "TAB \<equiv> [CHR 0x09]"

definition queryClusterCores :: string where
  "queryClusterCores =
     ''sum('' @ LF @
     TAB @ TAB @ ''avg(avg_over_time(kube_node_status_capacity_cpu_cores[%s] %s)) by (node, cluster_id) * avg(avg_over_time(node_cpu_hourly_cost[%s] %s)) by (node, cluster_id) * 730 +'' @ LF @
     TAB @ TAB @ ''avg(avg_over_time(node_gpu_hourly_cost[%s] %s)) by (node, cluster_id) * 730'' @ LF @
     TAB @ ''  ) by (cluster_id)''"

definition queryClusterRAM :: string where
  "queryClusterRAM =
     ''sum('' @ LF @
     TAB @ TAB @ ''avg(avg_over_time(kube_node_status_capacity_memory_bytes[%s] %s)) by (node, cluster_id) / 1024 / 1024 / 1024 * avg(avg_over_time(node_ram_hourly_cost[%s] %s)) by (node, cluster_id) * 730'' @ LF @
     TAB @ ''  ) by (cluster_id)''"

definition queryStorage :: string where
  "queryStorage =
     ''sum('' @ LF @
     TAB @ TAB @ ''avg(avg_over_time(pv_hourly_cost[%s] %s)) by (persistentvolume, cluster_id) * 730 '' @ LF @
     TAB @ TAB @ ''* avg(avg_over_time(kube_persistentvolume_capacity_bytes[%s] %s)) by (persistentvolume, cluster_id) / 1024 / 1024 / 1024'' @ LF @
     TAB @ ''  ) by (cluster_id) %s''"

definition queryTotal :: string where
  "queryTotal =
     ''sum(avg(node_total_hourly_cost) by (node, cluster_id)) * 730 +'' @ LF @
     TAB @ ''  sum('' @ LF @
     TAB @ TAB @ ''avg(avg_over_time(pv_hourly_cost[1h])) by (persistentvolume, cluster_id) * 730 '' @ LF @
     TAB @ TAB @ ''* avg(avg_over_time(kube_persistentvolume_capacity_bytes[1h])) by (persistentvolume, cluster_id) / 1024 / 1024 / 1024'' @ LF @
     TAB @ ''  ) by (cluster_id) %s''"

subsection \<open>Data model\<close>

text \<open>
  \<^verbatim>\<open>Totals\<close> as declared in the source. Each inner \<^verbatim>\<open>[]string\<close> is a pair
  \<^verbatim>\<open>[timestamp, value]\<close>.
\<close>

record Totals =
  TotalCost :: "string list list"
  CPUCost :: "string list list"
  MemCost :: "string list list"
  StorageCost :: "string list list"

text \<open>The zero value \<^verbatim>\<open>&Totals{}\<close>: four nil slices.\<close>

definition Totals_zero :: Totals where
  "Totals_zero = \<lparr>TotalCost = [], CPUCost = [], MemCost = [], StorageCost = []\<rparr>"

text \<open>
  Modelled from the spec: the types \<^verbatim>\<open>Vector\<close> and \<^verbatim>\<open>QueryResult\<close> and the method
  \<^verbatim>\<open>GetString\<close> are declared outside \<^verbatim>\<open>cluster.go\<close>. A sample is a timestamp and a
  value (both \<^verbatim>\<open>float64\<close>, here any type \<open>'f\<close>); a series is a label set with unique
  string keys and an ordered sequence of samples; \<^verbatim>\<open>GetString\<close> returns the label's
  value as it is and the empty string, with an error, when the label is absent (the
  text of that error is not given; \<^verbatim>\<open>cluster.go\<close> discards it).
\<close>

record 'f Vector =
  Timestamp :: 'f
  Value :: 'f

record 'f QueryResult =
  Metric :: "string \<rightharpoonup> string"
  Values :: "'f Vector list"

definition GetString :: "'f QueryResult \<Rightarrow> string \<Rightarrow> string \<times> error option" where
  "GetString qr field =
     (case Metric qr field of
        None \<Rightarrow> ([], Some (field @ '' field does not exist''))
      | Some v \<Rightarrow> (v, None))"

subsection \<open>The collaborators and the outside world\<close>

text \<open>
  Everything \<^verbatim>\<open>cluster.go\<close> calls but does not define is a parameter:
  \<^item> \<open>Getenv_clusterIDKey\<close> is \<^verbatim>\<open>os.Getenv(clusterIDKey)\<close>;
  \<^item> \<open>GetLocalStorageQuery\<close> is the cloud provider's method;
  \<^item> \<open>Query\<close> and \<open>QueryRange\<close> are the instant and the range query of the metrics
    backend (with the client argument applied), answering by query text: one call of
    an entry point sends pairwise different texts (lemma \<open>queries_distinct\<close> below);
  \<^item> \<open>NewQueryResults\<close> is the parser of a raw response \<open>'raw\<close>;
  \<^item> \<open>time_Parse\<close> and \<open>time_ParseDuration\<close> are Go's \<^verbatim>\<open>time.Parse\<close> and
    \<^verbatim>\<open>time.ParseDuration\<close>;
  \<^item> \<open>Sprintf_f\<close> is \<^verbatim>\<open>fmt.Sprintf("%f", x)\<close> on a \<^verbatim>\<open>float64\<close>.
\<close>

record ('raw, 'f, 't, 'd) deps =
  Getenv_clusterIDKey :: string
  GetLocalStorageQuery :: "string \<Rightarrow> error + string"
  Query :: "string \<Rightarrow> error + 'raw"
  QueryRange :: "string \<Rightarrow> 't \<Rightarrow> 't \<Rightarrow> 'd \<Rightarrow> error + 'raw"
  NewQueryResults :: "'raw \<Rightarrow> error + 'f QueryResult list"
  time_Parse :: "string \<Rightarrow> string \<Rightarrow> error + 't"
  time_ParseDuration :: "string \<Rightarrow> error + 'd"
  Sprintf_f :: "'f \<Rightarrow> string"

text \<open>
  The effects of a call, in order: the query texts sent to the metrics backend, the
  arguments handed to \<^verbatim>\<open>GetLocalStorageQuery\<close>, and the calls of the logger. A call
  of klog is recorded with its severity (klog has four: \<^verbatim>\<open>Infof\<close>, \<^verbatim>\<open>Warningf\<close>,
  \<^verbatim>\<open>Errorf\<close> and \<^verbatim>\<open>Fatalf\<close> write at INFO, WARNING, ERROR and FATAL), the verbosity
  \<open>n\<close> of \<^verbatim>\<open>klog.V(n)\<close>, the format string and the operands. \<^verbatim>\<open>cluster.go\<close> logs
  through \<^verbatim>\<open>klog.V(n).Infof\<close> only.
\<close>

datatype severity = INFO | WARNING | ERROR | FATAL

record world =
  prom_calls :: "string list"
  cloud_calls :: "string list"
  klog :: "(severity \<times> nat \<times> string \<times> string list) list"

definition world0 :: world where
  "world0 = \<lparr>prom_calls = [], cloud_calls = [], klog = []\<rparr>"

definition klog_V_Infof :: "nat \<Rightarrow> string \<Rightarrow> string list \<Rightarrow> world \<Rightarrow> world" where
  "klog_V_Infof v fmt args w = w\<lparr>klog := klog w @ [(INFO, v, fmt, args)]\<rparr>"

definition call_GetLocalStorageQuery ::
  "('raw, 'f, 't, 'd) deps \<Rightarrow> string \<Rightarrow> world \<Rightarrow> world \<times> (error + string)" where
  "call_GetLocalStorageQuery D offset w =
     (w\<lparr>cloud_calls := cloud_calls w @ [offset]\<rparr>, GetLocalStorageQuery D offset)"

definition call_Query ::
  "('raw, 'f, 't, 'd) deps \<Rightarrow> string \<Rightarrow> world \<Rightarrow> world \<times> (error + 'raw)" where
  "call_Query D q w = (w\<lparr>prom_calls := prom_calls w @ [q]\<rparr>, Query D q)"

definition call_QueryRange ::
  "('raw, 'f, 't, 'd) deps \<Rightarrow> string \<Rightarrow> 't \<Rightarrow> 't \<Rightarrow> 'd \<Rightarrow> world \<Rightarrow> world \<times> (error + 'raw)" where
  "call_QueryRange D q start end' window w =
     (w\<lparr>prom_calls := prom_calls w @ [q]\<rparr>, QueryRange D q start end' window)"

text \<open>
  \<^verbatim>\<open>x, err := f(...); if err != nil { return nil, g(err) }\<close>: run \<open>m\<close>, return at once
  with the error \<open>g err\<close> when it fails, go on with \<open>k x\<close> otherwise.
\<close>

definition on_err :: "(world \<Rightarrow> world \<times> (error + 'a)) \<Rightarrow> (error \<Rightarrow> error) \<Rightarrow>
    ('a \<Rightarrow> world \<Rightarrow> world \<times> (error + 'b)) \<Rightarrow> world \<Rightarrow> world \<times> (error + 'b)" where
  "on_err m g k w =
     (case m w of
        (w', Inl err) \<Rightarrow> (w', Inl (g err))
      | (w', Inr x) \<Rightarrow> k x w')"

definition ret :: "(error + 'a) \<Rightarrow> world \<Rightarrow> world \<times> (error + 'a)" where
  "ret r w = (w, r)"

subsection \<open>\<^verbatim>\<open>resultToTotals\<close>\<close>

text \<open>The pair \<^verbatim>\<open>[]string{d0, d1}\<close> built from one sample.\<close>

definition toAppend :: "('raw, 'f, 't, 'd) deps \<Rightarrow> 'f Vector \<Rightarrow> string list" where
  "toAppend D value =
     (let d0 = Sprintf_f D (Timestamp value);
          d1 = Sprintf_f D (Value value)
      in [d0, d1])"

text \<open>The loop \<^verbatim>\<open>for _, value := range result.Values\<close>, \<open>totals\<close> its accumulator.\<close>

fun resultToTotals_loop ::
  "('raw, 'f, 't, 'd) deps \<Rightarrow> 'f Vector list \<Rightarrow> string list list \<Rightarrow> string list list" where
  "resultToTotals_loop D [] totals = totals"
| "resultToTotals_loop D (value # values) totals =
     resultToTotals_loop D values (totals @ [toAppend D value])"

definition resultToTotals :: "('raw, 'f, 't, 'd) deps \<Rightarrow> 'raw \<Rightarrow> error + string list list" where
  "resultToTotals D qr =
     (case NewQueryResults D qr of
        Inl err \<Rightarrow> Inl err
      | Inr results \<Rightarrow>
          (case results of
             [] \<Rightarrow> Inl ''Not enough data available in the selected time range''
           | result # _ \<Rightarrow> Inr (resultToTotals_loop D (Values result) [])))"

subsection \<open>\<^verbatim>\<open>resultToTotal\<close>\<close>

text \<open>
  The loop \<^verbatim>\<open>for _, result := range results\<close> over the map \<open>toReturn\<close>. In the branch
  where the key is present, \<^verbatim>\<open>t = append(t, toAppend)\<close> assigns the local variable \<open>t\<close>
  (a copy of the slice header stored in the map); the map is not written.
\<close>

fun resultToTotal_loop ::
  "('raw, 'f, 't, 'd) deps \<Rightarrow> string \<Rightarrow> 'f QueryResult list \<Rightarrow>
     (string \<rightharpoonup> string list list) \<Rightarrow> world \<Rightarrow> world \<times> (string \<rightharpoonup> string list list)" where
  "resultToTotal_loop D defaultClusterID [] toReturn w = (w, toReturn)"
| "resultToTotal_loop D defaultClusterID (result # results) toReturn w =
     (let clusterID = fst (GetString result ''cluster_id'');
          clusterID = (if clusterID = [] then defaultClusterID else clusterID)
      in if length (Values result) = 0
         then resultToTotal_loop D defaultClusterID results toReturn
                (klog_V_Infof 1 ''[Warning] Metric values did not contain any valid data.'' [] w)
         else
           (let value = Values result ! 0
            in case toReturn clusterID of
                 Some t \<Rightarrow>
                   (let t = t @ [toAppend D value]
                    in resultToTotal_loop D defaultClusterID results toReturn w)
               | None \<Rightarrow>
                   resultToTotal_loop D defaultClusterID results
                     (toReturn(clusterID \<mapsto> [toAppend D value])) w))"

definition resultToTotal ::
  "('raw, 'f, 't, 'd) deps \<Rightarrow> 'raw \<Rightarrow> world \<Rightarrow> world \<times> (error + (string \<rightharpoonup> string list list))" where
  "resultToTotal D qr w =
     (let defaultClusterID = Getenv_clusterIDKey D
      in case NewQueryResults D qr of
           Inl err \<Rightarrow> (w, Inl err)
         | Inr results \<Rightarrow>
             (case resultToTotal_loop D defaultClusterID results Map.empty w of
                (w', toReturn) \<Rightarrow> (w', Inr toReturn)))"

subsection \<open>Building the queries\<close>

text \<open>
  The block \<^verbatim>\<open>if offset != "" { offset = fmt.Sprintf("offset %s", offset) }\<close> and the
  block \<^verbatim>\<open>if localStorageQuery != "" { ... fmt.Sprintf("+ %s", localStorageQuery) }\<close>,
  which the entry points repeat, and the four \<^verbatim>\<open>fmt.Sprintf\<close> calls that fill the
  templates, named after the variables they assign.
\<close>

definition rewrite_offset :: "string \<Rightarrow> string" where
  "rewrite_offset offset = (if offset \<noteq> [] then Sprintf ''offset %s'' [offset] else offset)"

definition plus_localStorageQuery :: "string \<Rightarrow> string" where
  "plus_localStorageQuery localStorageQuery =
     (if localStorageQuery \<noteq> [] then Sprintf ''+ %s'' [localStorageQuery]
      else localStorageQuery)"

definition qCores :: "string \<Rightarrow> string \<Rightarrow> string" where
  "qCores windowString offset =
     Sprintf queryClusterCores
       [windowString, offset, windowString, offset, windowString, offset]"

definition qRAM :: "string \<Rightarrow> string \<Rightarrow> string" where
  "qRAM windowString offset =
     Sprintf queryClusterRAM [windowString, offset, windowString, offset]"

definition qStorage :: "string \<Rightarrow> string \<Rightarrow> string \<Rightarrow> string" where
  "qStorage windowString offset localStorageQuery =
     Sprintf queryStorage [windowString, offset, windowString, offset, localStorageQuery]"

definition qTotal :: "string \<Rightarrow> string" where
  "qTotal localStorageQuery = Sprintf queryTotal [localStorageQuery]"

subsection \<open>\<^verbatim>\<open>ClusterCostsForAllClusters\<close>\<close>

text \<open>
  The loop \<^verbatim>\<open>for clusterID, total := range m\<close> that creates \<^verbatim>\<open>toReturn[clusterID]\<close>
  when it is missing and then assigns one field of it. The keys of a Go map are
  distinct, so the iteration order does not matter and the loop is given key by key;
  \<open>set_field\<close> is the assignment (\<^verbatim>\<open>.CPUCost = total\<close>, \<^verbatim>\<open>.MemCost = total\<close> or
  \<^verbatim>\<open>.StorageCost = total\<close>; the variable \<^verbatim>\<open>total\<close> is \<open>total'\<close> here).
\<close>

definition range_assign ::
  "(string list list \<Rightarrow> Totals \<Rightarrow> Totals) \<Rightarrow> (string \<rightharpoonup> string list list) \<Rightarrow>
     (string \<rightharpoonup> Totals) \<Rightarrow> (string \<rightharpoonup> Totals)" where
  "range_assign set_field m toReturn =
     (\<lambda>clusterID.
        case m clusterID of
          None \<Rightarrow> toReturn clusterID
        | Some total' \<Rightarrow>
            Some (set_field total'
                    (case toReturn clusterID of None \<Rightarrow> Totals_zero | Some t \<Rightarrow> t)))"

definition error_for_query :: "string \<Rightarrow> error \<Rightarrow> error" where
  "error_for_query q err = Sprintf ''Error for query %s: %s'' [q, err]"

definition ClusterCostsForAllClusters ::
  "('raw, 'f, 't, 'd) deps \<Rightarrow> string \<Rightarrow> string \<Rightarrow> world \<Rightarrow>
     world \<times> (error + (string \<rightharpoonup> Totals))" where
  "ClusterCostsForAllClusters D windowString offset =
     (let offset = rewrite_offset offset
      in on_err (call_GetLocalStorageQuery D offset) id (\<lambda>localStorageQuery.
         let localStorageQuery = plus_localStorageQuery localStorageQuery;
             qCores = qCores windowString offset;
             qRAM = qRAM windowString offset;
             qStorage = qStorage windowString offset localStorageQuery
         in on_err (call_Query D qCores \<circ> klog_V_Infof 4 ''Running query %s'' [qCores])
              (error_for_query qCores) (\<lambda>resultClusterCores.
            on_err (call_Query D qRAM \<circ> klog_V_Infof 4 ''Running query %s'' [qRAM])
              (error_for_query qRAM) (\<lambda>resultClusterRAM.
            on_err (call_Query D qStorage \<circ> klog_V_Infof 4 ''Running query %s'' [qRAM])
              (error_for_query qStorage) (\<lambda>resultStorage.
            let toReturn = Map.empty
            in on_err (resultToTotal D resultClusterCores)
                 (error_for_query qCores) (\<lambda>coreTotal.
               let toReturn = range_assign (\<lambda>total' t. t\<lparr>CPUCost := total'\<rparr>) coreTotal toReturn
               in on_err (resultToTotal D resultClusterRAM)
                    (error_for_query qRAM) (\<lambda>ramTotal.
                  let toReturn = range_assign (\<lambda>total' t. t\<lparr>MemCost := total'\<rparr>) ramTotal toReturn
                  in on_err (resultToTotal D resultStorage)
                       (error_for_query qStorage) (\<lambda>storageTotal.
                     let toReturn =
                           range_assign (\<lambda>total' t. t\<lparr>StorageCost := total'\<rparr>) storageTotal toReturn
                     in ret (Inr toReturn)))))))))"

subsection \<open>\<^verbatim>\<open>ClusterCosts\<close>\<close>

text \<open>Reading a Go map of slices at a key: the nil slice when the key is missing.\<close>

definition index_map :: "(string \<rightharpoonup> string list list) \<Rightarrow> string \<Rightarrow> string list list" where
  "index_map m k = (case m k of None \<Rightarrow> [] | Some v \<Rightarrow> v)"

definition ClusterCosts ::
  "('raw, 'f, 't, 'd) deps \<Rightarrow> string \<Rightarrow> string \<Rightarrow> world \<Rightarrow> world \<times> (error + Totals)" where
  "ClusterCosts D windowString offset =
     (let offset = rewrite_offset offset
      in on_err (call_GetLocalStorageQuery D offset) id (\<lambda>localStorageQuery.
         let localStorageQuery = plus_localStorageQuery localStorageQuery;
             qCores = qCores windowString offset;
             qRAM = qRAM windowString offset;
             qStorage = qStorage windowString offset localStorageQuery;
             qTotal = qTotal localStorageQuery
         in on_err (call_Query D qCores) id (\<lambda>resultClusterCores.
            on_err (call_Query D qRAM) id (\<lambda>resultClusterRAM.
            on_err (call_Query D qStorage) id (\<lambda>resultStorage.
            on_err (call_Query D qTotal) id (\<lambda>resultTotal.
            on_err (resultToTotal D resultClusterCores) id (\<lambda>coreTotal.
            on_err (resultToTotal D resultClusterRAM) id (\<lambda>ramTotal.
            on_err (resultToTotal D resultStorage) id (\<lambda>storageTotal.
            on_err (resultToTotal D resultTotal) id (\<lambda>clusterTotal.
            let defaultClusterID = Getenv_clusterIDKey D
            in ret (Inr \<lparr>TotalCost = index_map clusterTotal defaultClusterID,
                         CPUCost = index_map coreTotal defaultClusterID,
                         MemCost = index_map ramTotal defaultClusterID,
                         StorageCost = index_map storageTotal defaultClusterID\<rparr>)))))))))))"

subsection \<open>\<^verbatim>\<open>ClusterCostsOverTime\<close>\<close>

definition layout :: string where
  "layout = ''2006-01-02T15:04:05.000Z''"

text \<open>
  \<^verbatim>\<open>x, err := time.Parse(...); if err != nil { klog.V(1).Infof("Error parsing time " +
  s + ". Error: " + err.Error()); return nil, err }\<close>: the parse of the string \<open>s\<close>, with
  the log line written when it fails.
\<close>

definition parse_logged :: "string \<Rightarrow> (error + 'a) \<Rightarrow> world \<Rightarrow> world \<times> (error + 'a)" where
  "parse_logged s r w =
     (case r of
        Inl err \<Rightarrow> (klog_V_Infof 1 (''Error parsing time '' @ s @ ''. Error: '' @ err) [] w, Inl err)
      | Inr x \<Rightarrow> (w, Inr x))"

definition ClusterCostsOverTime ::
  "('raw, 'f, 't, 'd) deps \<Rightarrow> string \<Rightarrow> string \<Rightarrow> string \<Rightarrow> string \<Rightarrow> world \<Rightarrow>
     world \<times> (error + Totals)" where
  "ClusterCostsOverTime D startString endString windowString offset =
     on_err (call_GetLocalStorageQuery D offset) id (\<lambda>localStorageQuery.
     let localStorageQuery = plus_localStorageQuery localStorageQuery
     in on_err (parse_logged startString (time_Parse D layout startString)) id (\<lambda>start.
        on_err (parse_logged endString (time_Parse D layout endString)) id (\<lambda>end'.
        on_err (parse_logged windowString (time_ParseDuration D windowString)) id (\<lambda>window.
        let offset = rewrite_offset offset;
            qCores = qCores windowString offset;
            qRAM = qRAM windowString offset;
            qStorage = qStorage windowString offset localStorageQuery;
            qTotal = qTotal localStorageQuery
        in on_err (call_QueryRange D qCores start end' window) id (\<lambda>resultClusterCores.
           on_err (call_QueryRange D qRAM start end' window) id (\<lambda>resultClusterRAM.
           on_err (call_QueryRange D qStorage start end' window) id (\<lambda>resultStorage.
           on_err (call_QueryRange D qTotal start end' window) id (\<lambda>resultTotal.
           on_err (ret (resultToTotals D resultClusterCores)) id (\<lambda>coreTotal.
           on_err (ret (resultToTotals D resultClusterRAM)) id (\<lambda>ramTotal.
           on_err (ret (resultToTotals D resultStorage)) id (\<lambda>storageTotal.
           on_err (ret (resultToTotals D resultTotal)) id (\<lambda>clusterTotal.
           ret (Inr \<lparr>TotalCost = clusterTotal,
                     CPUCost = coreTotal,
                     MemCost = ramTotal,
                     StorageCost = storageTotal\<rparr>)))))))))))))"

subsection \<open>A concrete rendering of samples, for evaluating the code on examples\<close>

text \<open>
  \<^verbatim>\<open>%f\<close> prints six digits after the point. On a sample that is a natural number
  \<open>n\<close> that is the decimal numeral of \<open>n\<close> followed by \<^verbatim>\<open>.000000\<close>.
\<close>

fun decimal :: "nat \<Rightarrow> string" where
  "decimal n =
     (if n < 10 then [''0123456789'' ! n]
      else decimal (n div 10) @ [''0123456789'' ! (n mod 10)])"

declare decimal.simps [simp del]

definition Sprintf_f_nat :: "nat \<Rightarrow> string" where
  "Sprintf_f_nat n = decimal n @ ''.000000''"

subsection \<open>Notions used to state the properties\<close>

text \<open>
  The cluster identifier the loop of \<^verbatim>\<open>resultToTotal\<close> computes for a series: the value
  of its \<^verbatim>\<open>cluster_id\<close> label, or the default \<open>d\<close> when the label is absent or empty.
\<close>

definition clusterID_of :: "string \<Rightarrow> 'f QueryResult \<Rightarrow> string" where
  "clusterID_of d r =
     (case Metric r ''cluster_id'' of None \<Rightarrow> d | Some c \<Rightarrow> if c = [] then d else c)"

text \<open>
  The map from a cluster identifier to the one-element list holding the first sample of
  the first series, among those with at least one sample, that has this identifier.
\<close>

definition per_cluster ::
  "('raw, 'f, 't, 'd) deps \<Rightarrow> 'f QueryResult list \<Rightarrow> string \<rightharpoonup> string list list" where
  "per_cluster D rs k =
     (case find (\<lambda>r. Values r \<noteq> [] \<and> clusterID_of (Getenv_clusterIDKey D) r = k) rs of
        None \<Rightarrow> None
      | Some r \<Rightarrow> Some [toAppend D (hd (Values r))])"

text \<open>
  The record of the log call made for a skipped series (\<^verbatim>\<open>klog.V(1).Infof\<close> with a text
  that starts with \<^verbatim>\<open>[Warning]\<close>), and the log after the series \<open>rs\<close>.
\<close>

definition warning :: "severity \<times> nat \<times> string \<times> string list" where
  "warning = (INFO, 1, ''[Warning] Metric values did not contain any valid data.'', [])"

definition warned :: "'f QueryResult list \<Rightarrow> world \<Rightarrow> world" where
  "warned rs w =
     w\<lparr>klog := klog w @ replicate (length (filter (\<lambda>r. Values r = []) rs)) warning\<rparr>"

text \<open>
  What \<^verbatim>\<open>ClusterCosts\<close> reads from the map of one dimension, said on the series
  themselves: the one-element list with the first sample of the first series that has a
  sample and whose \<^verbatim>\<open>cluster_id\<close> label is absent, empty or the default identifier;
  the empty list when there is no such series.
\<close>

definition default_total ::
  "('raw, 'f, 't, 'd) deps \<Rightarrow> 'f QueryResult list \<Rightarrow> string list list" where
  "default_total D rs =
     (case find (\<lambda>r. Values r \<noteq> [] \<and>
                  (case Metric r ''cluster_id'' of
                     None \<Rightarrow> True
                   | Some c \<Rightarrow> c = [] \<or> c = Getenv_clusterIDKey D)) rs of
        None \<Rightarrow> []
      | Some r \<Rightarrow> [toAppend D (hd (Values r))])"

text \<open>The error of \<^verbatim>\<open>resultToTotals\<close> on a response without series.\<close>

definition nodata :: error where
  "nodata = ''Not enough data available in the selected time range''"

text \<open>
  The error of the first of the three parses (start, end, window, in this order) that
  fails; the empty message when none fails.
\<close>

definition first_parse_error ::
  "('raw, 'f, 't, 'd) deps \<Rightarrow> string \<Rightarrow> string \<Rightarrow> string \<Rightarrow> error" where
  "first_parse_error D startString endString windowString =
     (case time_Parse D layout startString of
        Inl err \<Rightarrow> err
      | Inr _ \<Rightarrow>
          (case time_Parse D layout endString of
             Inl err \<Rightarrow> err
           | Inr _ \<Rightarrow>
               (case time_ParseDuration D windowString of
                  Inl err \<Rightarrow> err
                | Inr _ \<Rightarrow> [])))"

subsection \<open>Example collaborators\<close>

text \<open>
  \<^verbatim>\<open>time.ParseDuration\<close> on the two window strings the examples hand to it: \<^verbatim>\<open>1h\<close>
  is one hour (in seconds here), and \<^verbatim>\<open>1d\<close> is rejected, since Go has no unit \<^verbatim>\<open>d\<close>,
  with the error text of Go (\<open>CHR 0x22\<close> is the double quote). It stands for Go's
  function on these two strings only; every other string is rejected here.
\<close>

definition example_ParseDuration :: "string \<Rightarrow> error + nat" where
  "example_ParseDuration s =
     (if s = ''1h'' then Inr 3600
      else if s = ''1d''
      then Inl (''time: unknown unit '' @ [CHR 0x22] @ ''d'' @ [CHR 0x22] @ '' in duration ''
                @ [CHR 0x22] @ ''1d'' @ [CHR 0x22])
      else Inl (''time: invalid duration '' @ [CHR 0x22] @ s @ [CHR 0x22]))"

text \<open>
  A backend that answers every query with the series \<open>rs\<close> (the raw response is the list
  of series itself and the parser accepts it), a cloud provider without local-storage
  term, a clock that accepts every timestamp and parses durations as above, and
  \<^verbatim>\<open>cluster-one\<close> as default cluster.
\<close>

definition example_deps ::
  "nat QueryResult list \<Rightarrow> (nat QueryResult list, nat, nat, nat) deps" where
  "example_deps rs =
     \<lparr>Getenv_clusterIDKey = ''cluster-one'',
      GetLocalStorageQuery = (\<lambda>offset. Inr []),
      Query = (\<lambda>q. Inr rs),
      QueryRange = (\<lambda>q start end' step. Inr rs),
      NewQueryResults = Inr,
      time_Parse = (\<lambda>layout' s. Inr 0),
      time_ParseDuration = example_ParseDuration,
      Sprintf_f = Sprintf_f_nat\<rparr>"

definition series :: "string option \<Rightarrow> (nat \<times> nat) list \<Rightarrow> nat QueryResult" where
  "series label samples =
     \<lparr>Metric = (case label of None \<Rightarrow> Map.empty | Some c \<Rightarrow> [''cluster_id'' \<mapsto> c]),
      Values = map (\<lambda>(t, v). \<lparr>Timestamp = t, Value = v\<rparr>) samples\<rparr>"

text \<open>
  Variants: a clock that rejects every timestamp, the same with a cloud provider that
  fails, and a parser that rejects every response.
\<close>

definition strict_clock_deps :: "(nat QueryResult list, nat, nat, nat) deps" where
  "strict_clock_deps =
     (example_deps [])\<lparr>time_Parse := (\<lambda>layout' s. Inl ''cannot parse time'')\<rparr>"

definition cloud_down_deps :: "(nat QueryResult list, nat, nat, nat) deps" where
  "cloud_down_deps =
     (example_deps [])\<lparr>GetLocalStorageQuery := (\<lambda>offset. Inl ''cloud provider unavailable''),
                       time_Parse := (\<lambda>layout' s. Inl ''cannot parse time'')\<rparr>"

definition bad_payload_deps :: "(nat QueryResult list, nat, nat, nat) deps" where
  "bad_payload_deps =
     (example_deps [])\<lparr>NewQueryResults := (\<lambda>qr. Inl ''malformed payload'')\<rparr>"

section \<open>Properties\<close>

subsection \<open>Formatting and the two loops\<close>

lemma rewrite_offset_eq:
  "rewrite_offset offset = (if offset = [] then [] else ''offset '' @ offset)"
  by (simp add: rewrite_offset_def)

lemma plus_localStorageQuery_eq:
  "plus_localStorageQuery l = (if l = [] then [] else ''+ '' @ l)"
  by (simp add: plus_localStorageQuery_def)

text \<open>The equations that evaluate the example collaborators.\<close>

lemmas example_simps = example_deps_def example_ParseDuration_def series_def toAppend_def
  Sprintf_f_nat_def decimal.simps world0_def rewrite_offset_eq plus_localStorageQuery_eq

lemma resultToTotals_loop_eq:
  "resultToTotals_loop D vs totals = totals @ map (toAppend D) vs"
  by (induction vs arbitrary: totals) auto

lemma loop_Cons:
  "resultToTotal_loop D d (r # rs) m w =
     (if Values r = []
      then resultToTotal_loop D d rs m
             (klog_V_Infof 1 ''[Warning] Metric values did not contain any valid data.'' [] w)
      else (case m (clusterID_of d r) of
              Some t \<Rightarrow> resultToTotal_loop D d rs m w
            | None \<Rightarrow>
                resultToTotal_loop D d rs
                  (m(clusterID_of d r \<mapsto> [toAppend D (hd (Values r))])) w))"
  by (simp add: Let_def clusterID_of_def GetString_def hd_conv_nth split: option.splits)

lemma warned_Cons:
  "warned (r # rs) w =
     (if Values r = []
      then warned rs
             (klog_V_Infof 1 ''[Warning] Metric values did not contain any valid data.'' [] w)
      else warned rs w)"
  by (simp add: warned_def klog_V_Infof_def warning_def replicate_append_same)

lemma loop_world: "fst (resultToTotal_loop D d rs m w) = warned rs w"
proof (induction rs arbitrary: m w)
  case Nil
  show ?case by (simp add: warned_def)
next
  case (Cons r rs)
  show ?case
    unfolding loop_Cons warned_Cons by (simp add: Cons split: option.splits)
qed

lemma loop_map:
  "snd (resultToTotal_loop D d rs m w) k =
     (case m k of
        Some t \<Rightarrow> Some t
      | None \<Rightarrow>
          (case find (\<lambda>r. Values r \<noteq> [] \<and> clusterID_of d r = k) rs of
             None \<Rightarrow> None
           | Some r \<Rightarrow> Some [toAppend D (hd (Values r))]))"
proof (induction rs arbitrary: m w)
  case Nil
  show ?case by (simp split: option.splits)
next
  case (Cons r rs)
  show ?case
    unfolding loop_Cons by (simp add: Cons split: option.splits)
qed

lemma resultToTotal_ok:
  assumes "NewQueryResults D qr = Inr rs"
  shows "resultToTotal D qr w = (warned rs w, Inr (per_cluster D rs))"
proof -
  have "snd (resultToTotal_loop D (Getenv_clusterIDKey D) rs Map.empty w) = per_cluster D rs"
    by (rule ext) (simp add: loop_map per_cluster_def)
  moreover
  have "fst (resultToTotal_loop D (Getenv_clusterIDKey D) rs Map.empty w) = warned rs w"
    by (rule loop_world)
  ultimately
  have "resultToTotal_loop D (Getenv_clusterIDKey D) rs Map.empty w
          = (warned rs w, per_cluster D rs)"
    by (metis prod.collapse)
  then show ?thesis
    using assms by (simp add: resultToTotal_def)
qed

lemma resultToTotal_err:
  "NewQueryResults D qr = Inl e \<Longrightarrow> resultToTotal D qr w = (w, Inl e)"
  by (simp add: resultToTotal_def)

lemma resultToTotals_ok:
  "NewQueryResults D qr = Inr (r # rs) \<Longrightarrow>
     resultToTotals D qr = Inr (map (toAppend D) (Values r))"
  by (simp add: resultToTotals_def resultToTotals_loop_eq)

lemma resultToTotals_nodata:
  "NewQueryResults D qr = Inr [] \<Longrightarrow>
     resultToTotals D qr = Inl ''Not enough data available in the selected time range''"
  by (simp add: resultToTotals_def)

lemma on_err_Inr: "m w = (w', Inr x) \<Longrightarrow> on_err m g k w = k x w'"
  by (simp add: on_err_def)

lemma on_err_Inl: "m w = (w', Inl e) \<Longrightarrow> on_err m g k w = (w', Inl (g e))"
  by (simp add: on_err_def)

subsection \<open>What the cloud provider is handed\<close>

lemma cloud_on_err:
  assumes "\<And>w. cloud_calls (fst (m w)) = cloud_calls w"
    and "\<And>x w. cloud_calls (fst (k x w)) = cloud_calls w"
  shows "cloud_calls (fst (on_err m g k w)) = cloud_calls w"
  using assms(1) [of w] assms(2)
  by (auto simp: on_err_def split: prod.splits sum.splits)

lemma cloud_call_Query: "cloud_calls (fst (call_Query D q w)) = cloud_calls w"
  by (simp add: call_Query_def)

lemma cloud_call_Query_logged:
  "cloud_calls (fst ((call_Query D q \<circ> klog_V_Infof v f a) w)) = cloud_calls w"
  by (simp add: call_Query_def klog_V_Infof_def)

lemma cloud_call_QueryRange:
  "cloud_calls (fst (call_QueryRange D q s e d w)) = cloud_calls w"
  by (simp add: call_QueryRange_def)

lemma cloud_ret: "cloud_calls (fst (ret r w)) = cloud_calls w"
  by (simp add: ret_def)

lemma cloud_parse_logged: "cloud_calls (fst (parse_logged s r w)) = cloud_calls w"
  by (simp add: parse_logged_def klog_V_Infof_def split: sum.splits)

lemma cloud_resultToTotal: "cloud_calls (fst (resultToTotal D qr w)) = cloud_calls w"
proof (cases "NewQueryResults D qr")
  case (Inl e)
  then show ?thesis by (simp add: resultToTotal_err)
next
  case (Inr rs)
  then show ?thesis by (simp add: resultToTotal_ok warned_def)
qed

lemma cloud_first:
  assumes "\<And>x w. cloud_calls (fst (k x w)) = cloud_calls w"
  shows "cloud_calls (fst (on_err (call_GetLocalStorageQuery D a) g k w)) = cloud_calls w @ [a]"
  using assms by (auto simp: on_err_def call_GetLocalStorageQuery_def split: sum.splits)

lemma ClusterCosts_cloud:
  "cloud_calls (fst (ClusterCosts D windowString offset w))
     = cloud_calls w @ [rewrite_offset offset]"
  unfolding ClusterCosts_def Let_def
  by (intro cloud_first cloud_on_err cloud_call_Query cloud_resultToTotal cloud_ret)

lemma ClusterCostsForAllClusters_cloud:
  "cloud_calls (fst (ClusterCostsForAllClusters D windowString offset w))
     = cloud_calls w @ [rewrite_offset offset]"
  unfolding ClusterCostsForAllClusters_def Let_def
  by (intro cloud_first cloud_on_err cloud_call_Query_logged cloud_resultToTotal cloud_ret)

lemma ClusterCostsOverTime_cloud:
  "cloud_calls (fst (ClusterCostsOverTime D s e windowString offset w))
     = cloud_calls w @ [offset]"
  unfolding ClusterCostsOverTime_def Let_def
  by (intro cloud_first cloud_on_err cloud_call_QueryRange cloud_parse_logged cloud_ret)

text \<open>
  Claim C10. For every non-empty offset string, \<^verbatim>\<open>ClusterCosts\<close> and
  \<^verbatim>\<open>ClusterCostsForAllClusters\<close> call \<^verbatim>\<open>GetLocalStorageQuery\<close> (once) with the rewritten
  text \<^verbatim>\<open>offset <o>\<close>, \<^verbatim>\<open>ClusterCostsOverTime\<close> calls it (once) with the offset as the
  caller gave it, and the two arguments differ.
\<close>

theorem C10_offset_argument_differs:
  assumes "offset \<noteq> []"
  shows "cloud_calls (fst (ClusterCosts D windowString offset w))
           = cloud_calls w @ [''offset '' @ offset]
       \<and> cloud_calls (fst (ClusterCostsForAllClusters D windowString offset w))
           = cloud_calls w @ [''offset '' @ offset]
       \<and> cloud_calls (fst (ClusterCostsOverTime D startString endString windowString offset w))
           = cloud_calls w @ [offset]
       \<and> ''offset '' @ offset \<noteq> offset"
  using assms
  by (simp add: ClusterCosts_cloud ClusterCostsForAllClusters_cloud
      ClusterCostsOverTime_cloud rewrite_offset_eq)

theorem C10_offset_argument_differs_witness:
  "cloud_calls (fst (ClusterCosts (example_deps []) ''1d'' ''3h'' world0)) = [''offset 3h'']
   \<and> cloud_calls (fst (ClusterCostsForAllClusters (example_deps []) ''1d'' ''3h'' world0))
       = [''offset 3h'']
   \<and> cloud_calls (fst (ClusterCostsOverTime (example_deps [])
         ''2020-01-01T00:00:00.000Z'' ''2020-01-02T00:00:00.000Z'' ''1d'' ''3h'' world0))
       = [''3h'']"
  using C10_offset_argument_differs [of "''3h''" "example_deps []" "''1d''" world0
      "''2020-01-01T00:00:00.000Z''" "''2020-01-02T00:00:00.000Z''"]
  by (simp add: world0_def)

subsection \<open>The queries\<close>

lemma qCores_eq:
  "qCores w off =
     ''sum('' @ LF @
     TAB @ TAB @ ''avg(avg_over_time(kube_node_status_capacity_cpu_cores['' @ w @ ''] '' @ off
       @ '')) by (node, cluster_id) * avg(avg_over_time(node_cpu_hourly_cost['' @ w @ ''] '' @ off
       @ '')) by (node, cluster_id) * 730 +'' @ LF @
     TAB @ TAB @ ''avg(avg_over_time(node_gpu_hourly_cost['' @ w @ ''] '' @ off
       @ '')) by (node, cluster_id) * 730'' @ LF @
     TAB @ ''  ) by (cluster_id)''"
  by (simp add: qCores_def queryClusterCores_def)

lemma qRAM_eq:
  "qRAM w off =
     ''sum('' @ LF @
     TAB @ TAB @ ''avg(avg_over_time(kube_node_status_capacity_memory_bytes['' @ w @ ''] '' @ off
       @ '')) by (node, cluster_id) / 1024 / 1024 / 1024 * avg(avg_over_time(node_ram_hourly_cost[''
       @ w @ ''] '' @ off @ '')) by (node, cluster_id) * 730'' @ LF @
     TAB @ ''  ) by (cluster_id)''"
  by (simp add: qRAM_def queryClusterRAM_def)

lemma qStorage_eq:
  "qStorage w off l =
     ''sum('' @ LF @
     TAB @ TAB @ ''avg(avg_over_time(pv_hourly_cost['' @ w @ ''] '' @ off
       @ '')) by (persistentvolume, cluster_id) * 730 '' @ LF @
     TAB @ TAB @ ''* avg(avg_over_time(kube_persistentvolume_capacity_bytes['' @ w @ ''] '' @ off
       @ '')) by (persistentvolume, cluster_id) / 1024 / 1024 / 1024'' @ LF @
     TAB @ ''  ) by (cluster_id) '' @ l"
  by (simp add: qStorage_def queryStorage_def)

lemma qTotal_eq:
  "qTotal l =
     ''sum(avg(node_total_hourly_cost) by (node, cluster_id)) * 730 +'' @ LF @
     TAB @ ''  sum('' @ LF @
     TAB @ TAB @ ''avg(avg_over_time(pv_hourly_cost[1h])) by (persistentvolume, cluster_id) * 730 '' @ LF @
     TAB @ TAB @ ''* avg(avg_over_time(kube_persistentvolume_capacity_bytes[1h])) by (persistentvolume, cluster_id) / 1024 / 1024 / 1024'' @ LF @
     TAB @ ''  ) by (cluster_id) '' @ l"
  by (simp add: qTotal_def queryTotal_def)

text \<open>
  The four queries of one call are pairwise different, whatever the window, the offset
  and the local-storage term: a backend that answers by query text can answer each of
  them on its own.
\<close>

lemma queries_distinct:
  "distinct [qCores w off, qRAM w off, qStorage w off l, qTotal l]"
  by (simp add: qCores_eq qRAM_eq qStorage_eq qTotal_eq)

lemma sublist_later: "sublist xs ys \<Longrightarrow> sublist xs (ps @ ys)"
  by (auto simp: sublist_def) (metis append.assoc)

lemma qCores_window: "sublist w (qCores w off)"
  unfolding qCores_eq by (intro sublist_append_rightI sublist_later)

lemma qCores_offset: "sublist off (qCores w off)"
  unfolding qCores_eq by (intro sublist_append_rightI sublist_later)

lemma qRAM_window: "sublist w (qRAM w off)"
  unfolding qRAM_eq by (intro sublist_append_rightI sublist_later)

lemma qRAM_offset: "sublist off (qRAM w off)"
  unfolding qRAM_eq by (intro sublist_append_rightI sublist_later)

lemma qStorage_window: "sublist w (qStorage w off l)"
  unfolding qStorage_eq by (intro sublist_append_rightI sublist_later)

lemma qStorage_offset: "sublist off (qStorage w off l)"
  unfolding qStorage_eq by (intro sublist_append_rightI sublist_later)

text \<open>
  Claim C6, as amended. For every window \<open>w\<close>, offset and local-storage term \<open>l\<close>, each
  of the cores, memory and storage queries contains the window as given and the
  rewritten offset \<open>off\<close> (the text \<^verbatim>\<open>offset <o>\<close> when the offset is non-empty, the empty
  text when it is empty): each is its template with \<open>w\<close> at every window site (three,
  two and two sites) and \<open>off\<close> once at every offset site. The total query is not built
  from the window or the offset: it is the fixed text of its template, in which the
  window \<^verbatim>\<open>1h\<close> is written, followed by the local-storage term.
\<close>

theorem C6_queries_built:
  "(let off = (if offset = [] then [] else ''offset '' @ offset) in
     sublist w (qCores w (rewrite_offset offset)) \<and> sublist off (qCores w (rewrite_offset offset))
   \<and> sublist w (qRAM w (rewrite_offset offset)) \<and> sublist off (qRAM w (rewrite_offset offset))
   \<and> sublist w (qStorage w (rewrite_offset offset) l)
   \<and> sublist off (qStorage w (rewrite_offset offset) l)
   \<and> qCores w (rewrite_offset offset) =
       ''sum('' @ LF @
       TAB @ TAB @ ''avg(avg_over_time(kube_node_status_capacity_cpu_cores['' @ w @ ''] '' @ off
         @ '')) by (node, cluster_id) * avg(avg_over_time(node_cpu_hourly_cost['' @ w @ ''] '' @ off
         @ '')) by (node, cluster_id) * 730 +'' @ LF @
       TAB @ TAB @ ''avg(avg_over_time(node_gpu_hourly_cost['' @ w @ ''] '' @ off
         @ '')) by (node, cluster_id) * 730'' @ LF @
       TAB @ ''  ) by (cluster_id)''
   \<and> qRAM w (rewrite_offset offset) =
       ''sum('' @ LF @
       TAB @ TAB @ ''avg(avg_over_time(kube_node_status_capacity_memory_bytes['' @ w @ ''] '' @ off
         @ '')) by (node, cluster_id) / 1024 / 1024 / 1024 * avg(avg_over_time(node_ram_hourly_cost[''
         @ w @ ''] '' @ off @ '')) by (node, cluster_id) * 730'' @ LF @
       TAB @ ''  ) by (cluster_id)''
   \<and> qStorage w (rewrite_offset offset) l =
       ''sum('' @ LF @
       TAB @ TAB @ ''avg(avg_over_time(pv_hourly_cost['' @ w @ ''] '' @ off
         @ '')) by (persistentvolume, cluster_id) * 730 '' @ LF @
       TAB @ TAB @ ''* avg(avg_over_time(kube_persistentvolume_capacity_bytes['' @ w @ ''] '' @ off
         @ '')) by (persistentvolume, cluster_id) / 1024 / 1024 / 1024'' @ LF @
       TAB @ ''  ) by (cluster_id) '' @ l
   \<and> qTotal l =
       ''sum(avg(node_total_hourly_cost) by (node, cluster_id)) * 730 +'' @ LF @
       TAB @ ''  sum('' @ LF @
       TAB @ TAB @ ''avg(avg_over_time(pv_hourly_cost[1h])) by (persistentvolume, cluster_id) * 730 '' @ LF @
       TAB @ TAB @ ''* avg(avg_over_time(kube_persistentvolume_capacity_bytes[1h])) by (persistentvolume, cluster_id) / 1024 / 1024 / 1024'' @ LF @
       TAB @ ''  ) by (cluster_id) '' @ l)"
  unfolding Let_def rewrite_offset_eq
  by (intro conjI qCores_window qCores_offset qRAM_window qRAM_offset qStorage_window
      qStorage_offset qCores_eq qRAM_eq qStorage_eq qTotal_eq)

subsection \<open>The calls that succeed\<close>

lemma index_map_per_cluster:
  "index_map (per_cluster D rs) (Getenv_clusterIDKey D) = default_total D rs"
proof -
  have "(\<lambda>r::'b QueryResult.
           Values r \<noteq> [] \<and> clusterID_of (Getenv_clusterIDKey D) r = Getenv_clusterIDKey D)
      = (\<lambda>r. Values r \<noteq> [] \<and>
                  (case Metric r ''cluster_id'' of
                     None \<Rightarrow> True
                   | Some c \<Rightarrow> c = [] \<or> c = Getenv_clusterIDKey D))"
    by (auto simp: clusterID_of_def fun_eq_iff split: option.splits)
  then show ?thesis
    by (simp add: index_map_def per_cluster_def default_total_def split: option.splits)
qed

lemma prom_warned: "prom_calls (warned rs w) = prom_calls w"
  by (simp add: warned_def)

lemma ClusterCosts_ok:
  assumes "GetLocalStorageQuery D (rewrite_offset offset) = Inr l"
    and "Query D (qCores ws (rewrite_offset offset)) = Inr rc"
    and "Query D (qRAM ws (rewrite_offset offset)) = Inr rr"
    and "Query D (qStorage ws (rewrite_offset offset) (plus_localStorageQuery l)) = Inr rs"
    and "Query D (qTotal (plus_localStorageQuery l)) = Inr rt"
    and "NewQueryResults D rc = Inr sc"
    and "NewQueryResults D rr = Inr sr"
    and "NewQueryResults D rs = Inr ss"
    and "NewQueryResults D rt = Inr st"
  shows "ClusterCosts D ws offset w =
     (warned st (warned ss (warned sr (warned sc
        (w\<lparr>cloud_calls := cloud_calls w @ [rewrite_offset offset],
           prom_calls := prom_calls w @
             [qCores ws (rewrite_offset offset), qRAM ws (rewrite_offset offset),
              qStorage ws (rewrite_offset offset) (plus_localStorageQuery l),
              qTotal (plus_localStorageQuery l)]\<rparr>)))),
      Inr \<lparr>TotalCost = default_total D st,
           CPUCost = default_total D sc,
           MemCost = default_total D sr,
           StorageCost = default_total D ss\<rparr>)"
  using assms
  by (simp add: ClusterCosts_def Let_def on_err_def call_GetLocalStorageQuery_def
      call_Query_def resultToTotal_ok ret_def index_map_per_cluster)

lemma ClusterCostsForAllClusters_ok:
  assumes "GetLocalStorageQuery D (rewrite_offset offset) = Inr l"
    and "Query D (qCores ws (rewrite_offset offset)) = Inr rc"
    and "Query D (qRAM ws (rewrite_offset offset)) = Inr rr"
    and "Query D (qStorage ws (rewrite_offset offset) (plus_localStorageQuery l)) = Inr rs"
    and "NewQueryResults D rc = Inr sc"
    and "NewQueryResults D rr = Inr sr"
    and "NewQueryResults D rs = Inr ss"
  shows "snd (ClusterCostsForAllClusters D ws offset w) =
      Inr (range_assign (\<lambda>total' t. t\<lparr>StorageCost := total'\<rparr>) (per_cluster D ss)
            (range_assign (\<lambda>total' t. t\<lparr>MemCost := total'\<rparr>) (per_cluster D sr)
              (range_assign (\<lambda>total' t. t\<lparr>CPUCost := total'\<rparr>) (per_cluster D sc)
                 Map.empty)))"
  using assms
  by (simp add: ClusterCostsForAllClusters_def Let_def on_err_def call_GetLocalStorageQuery_def
      call_Query_def resultToTotal_ok ret_def)

lemma ClusterCostsOverTime_ok:
  assumes "GetLocalStorageQuery D offset = Inr l"
    and "time_Parse D layout startString = Inr start"
    and "time_Parse D layout endString = Inr end'"
    and "time_ParseDuration D ws = Inr window"
    and "QueryRange D (qCores ws (rewrite_offset offset)) start end' window = Inr rc"
    and "QueryRange D (qRAM ws (rewrite_offset offset)) start end' window = Inr rr"
    and "QueryRange D (qStorage ws (rewrite_offset offset) (plus_localStorageQuery l))
           start end' window = Inr rs"
    and "QueryRange D (qTotal (plus_localStorageQuery l)) start end' window = Inr rt"
  shows "snd (ClusterCostsOverTime D startString endString ws offset w) =
      (case resultToTotals D rc of Inl err \<Rightarrow> Inl err | Inr coreTotal \<Rightarrow>
       case resultToTotals D rr of Inl err \<Rightarrow> Inl err | Inr ramTotal \<Rightarrow>
       case resultToTotals D rs of Inl err \<Rightarrow> Inl err | Inr storageTotal \<Rightarrow>
       case resultToTotals D rt of Inl err \<Rightarrow> Inl err | Inr clusterTotal \<Rightarrow>
         Inr \<lparr>TotalCost = clusterTotal, CPUCost = coreTotal, MemCost = ramTotal,
              StorageCost = storageTotal\<rparr>)"
  using assms
  by (simp add: ClusterCostsOverTime_def Let_def on_err_def call_GetLocalStorageQuery_def
      call_QueryRange_def parse_logged_def ret_def split: sum.splits)

text \<open>
  Claim C6 as stated fails on the total query: the total query \<^verbatim>\<open>ClusterCosts\<close> sends for the window \<^verbatim>\<open>2d\<close> and the offset
  \<^verbatim>\<open>3h\<close> (the fourth of its four queries) holds neither \<^verbatim>\<open>2d\<close> nor \<^verbatim>\<open>offset 3h\<close>.
\<close>

theorem C6_total_query_without_window:
  "length (prom_calls (fst (ClusterCosts (example_deps []) ''2d'' ''3h'' world0))) = 4
   \<and> \<not> sublist ''2d'' (prom_calls (fst (ClusterCosts (example_deps []) ''2d'' ''3h'' world0)) ! 3)
   \<and> \<not> sublist ''offset 3h''
         (prom_calls (fst (ClusterCosts (example_deps []) ''2d'' ''3h'' world0)) ! 3)"
proof -
  have "prom_calls (fst (ClusterCosts (example_deps []) ''2d'' ''3h'' world0))
      = [qCores ''2d'' ''offset 3h'', qRAM ''2d'' ''offset 3h'',
         qStorage ''2d'' ''offset 3h'' [], qTotal []]"
    by (subst ClusterCosts_ok [where l = "[]" and rc = "[]" and rr = "[]" and rs = "[]"
          and rt = "[]" and sc = "[]" and sr = "[]" and ss = "[]" and st = "[]"])
       (simp_all add: example_deps_def prom_warned world0_def rewrite_offset_eq
          plus_localStorageQuery_eq)
  moreover have "\<not> sublist ''2d'' (qTotal [])" "\<not> sublist ''offset 3h'' (qTotal [])"
    by (simp_all add: qTotal_eq sublist_code)
  ultimately show ?thesis by simp
qed

subsection \<open>Time parsing comes before the queries\<close>

text \<open>
  Claim C9, as amended. When the start string, the end string or the window string
  fails to parse, \<^verbatim>\<open>ClusterCostsOverTime\<close> sends no query to the metrics backend and
  returns an error: the error of the cloud provider when its \<^verbatim>\<open>GetLocalStorageQuery\<close>,
  which is called first, fails; otherwise the error of the first parse that fails.
\<close>

theorem C9_parse_failure_before_queries:
  assumes "isl (time_Parse D layout startString) \<or> isl (time_Parse D layout endString)
      \<or> isl (time_ParseDuration D windowString)"
  shows "prom_calls (fst (ClusterCostsOverTime D startString endString windowString offset w))
           = prom_calls w
       \<and> snd (ClusterCostsOverTime D startString endString windowString offset w)
           = (case GetLocalStorageQuery D offset of
                Inl err \<Rightarrow> Inl err
              | Inr l \<Rightarrow> Inl (first_parse_error D startString endString windowString))"
  using assms
  by (auto simp: ClusterCostsOverTime_def Let_def on_err_def call_GetLocalStorageQuery_def
      parse_logged_def klog_V_Infof_def first_parse_error_def isl_def
      split: sum.splits)

theorem C9_parse_failure_before_queries_witness:
  "prom_calls (fst (ClusterCostsOverTime strict_clock_deps
       ''yesterday'' ''today'' ''1d'' ''3h'' world0)) = []
   \<and> snd (ClusterCostsOverTime strict_clock_deps ''yesterday'' ''today'' ''1d'' ''3h'' world0)
       = Inl ''cannot parse time''"
  using C9_parse_failure_before_queries
    [of strict_clock_deps "''yesterday''" "''today''" "''1d''" "''3h''" world0]
  by (simp add: strict_clock_deps_def example_deps_def world0_def first_parse_error_def)

text \<open>
  Claim C9 as stated fails where the cloud provider fails too: the start string does
  not parse, and the call returns the provider's error, not the parse error.
\<close>

theorem C9_cloud_error_first:
  "time_Parse cloud_down_deps layout ''yesterday'' = Inl ''cannot parse time''
   \<and> snd (ClusterCostsOverTime cloud_down_deps ''yesterday'' ''today'' ''1d'' ''3h'' world0)
       = Inl ''cloud provider unavailable''"
  by (simp add: cloud_down_deps_def example_deps_def ClusterCostsOverTime_def on_err_def
      call_GetLocalStorageQuery_def)

subsection \<open>Series without samples\<close>

lemma toAppend_upd: "toAppend (D\<lparr>NewQueryResults := f\<rparr>) = toAppend D"
  by (rule ext) (simp add: toAppend_def)

lemma per_cluster_filter:
  "per_cluster D (filter (\<lambda>r. Values r \<noteq> []) rs) = per_cluster D rs"
proof (rule ext)
  fix k
  have "find (\<lambda>r. Values r \<noteq> [] \<and> clusterID_of (Getenv_clusterIDKey D) r = k)
          (filter (\<lambda>r. Values r \<noteq> []) rs)
      = find (\<lambda>r. Values r \<noteq> [] \<and> clusterID_of (Getenv_clusterIDKey D) r = k) rs"
    by (induction rs) auto
  then show "per_cluster D (filter (\<lambda>r. Values r \<noteq> []) rs) k = per_cluster D rs k"
    by (simp add: per_cluster_def)
qed

lemma dom_per_cluster:
  "dom (per_cluster D rs)
     = clusterID_of (Getenv_clusterIDKey D) ` {r \<in> set rs. Values r \<noteq> []}"
  by (auto simp: per_cluster_def dom_def find_None_iff image_iff split: option.splits)

text \<open>
  Claim C8, as amended. When the response parses to the series \<open>rs\<close>, \<^verbatim>\<open>resultToTotal\<close>
  returns no error; its map is the one it returns for \<open>rs\<close> without the series that
  have no sample; the keys of the map are the cluster identifiers of the series that
  have a sample; and for each series without sample the logger is called once,
  through \<^verbatim>\<open>klog.V(1).Infof\<close>: a record of severity INFO at verbosity 1 with the text
  \<^verbatim>\<open>[Warning] Metric values did not contain any valid data.\<close>
\<close>

theorem C8_empty_series_skipped:
  assumes "NewQueryResults D qr = Inr rs"
  shows "\<not> isl (snd (resultToTotal D qr w))
     \<and> snd (resultToTotal D qr w)
         = snd (resultToTotal
                  (D\<lparr>NewQueryResults := \<lambda>qr. Inr (filter (\<lambda>r. Values r \<noteq> []) rs)\<rparr>) qr w)
     \<and> klog (fst (resultToTotal D qr w))
         = klog w @ replicate (length (filter (\<lambda>r. Values r = []) rs))
                      (INFO, 1, ''[Warning] Metric values did not contain any valid data.'', [])
     \<and> (case snd (resultToTotal D qr w) of
          Inl err \<Rightarrow> False
        | Inr toReturn \<Rightarrow>
            dom toReturn
              = clusterID_of (Getenv_clusterIDKey D) ` {r \<in> set rs. Values r \<noteq> []})"
proof -
  let ?D = "D\<lparr>NewQueryResults := \<lambda>qr. Inr (filter (\<lambda>r. Values r \<noteq> []) rs)\<rparr>"
  have 1: "resultToTotal D qr w = (warned rs w, Inr (per_cluster D rs))"
    using assms by (rule resultToTotal_ok)
  have "resultToTotal ?D qr w
      = (warned (filter (\<lambda>r. Values r \<noteq> []) rs) w,
         Inr (per_cluster ?D (filter (\<lambda>r. Values r \<noteq> []) rs)))"
    by (rule resultToTotal_ok) simp
  moreover have "per_cluster ?D = per_cluster D"
    by (intro ext) (simp add: per_cluster_def toAppend_upd cong: option.case_cong)
  ultimately have 2: "snd (resultToTotal ?D qr w) = Inr (per_cluster D rs)"
    by (simp add: per_cluster_filter)
  show ?thesis
    by (simp add: 1 2 warned_def warning_def dom_per_cluster)
qed

theorem C8_empty_series_skipped_witness:
  "snd (resultToTotal (example_deps [])
          [series (Some ''cluster-two'') [], series (Some ''cluster-one'') [(100, 7)]] world0)
     = snd (resultToTotal (example_deps []) [series (Some ''cluster-one'') [(100, 7)]] world0)
   \<and> klog (fst (resultToTotal (example_deps [])
          [series (Some ''cluster-two'') [], series (Some ''cluster-one'') [(100, 7)]] world0))
     = [(INFO, 1, ''[Warning] Metric values did not contain any valid data.'', [])]"
  using C8_empty_series_skipped [of "example_deps []"
      "[series (Some ''cluster-two'') [], series (Some ''cluster-one'') [(100, 7)]]"
      "[series (Some ''cluster-two'') [], series (Some ''cluster-one'') [(100, 7)]]" world0]
  by (simp add: example_simps resultToTotal_def GetString_def)

text \<open>
  Claim C8 as stated fails on the level of the log: the one record written for the
  skipped series has the severity INFO, not WARNING.
\<close>

theorem C8_skip_logged_at_info:
  "klog (fst (resultToTotal (example_deps [])
          [series (Some ''cluster-two'') [], series (Some ''cluster-one'') [(100, 7)]] world0))
     = [(INFO, 1, ''[Warning] Metric values did not contain any valid data.'', [])]
   \<and> INFO \<noteq> WARNING"
  by (simp add: example_simps resultToTotal_def GetString_def klog_V_Infof_def)

subsection \<open>The time-series policy\<close>

text \<open>
  Claim C2, as amended. When the provider, the three parses and the four range queries
  succeed and every response parses to at least one series, each field of the result
  of \<^verbatim>\<open>ClusterCostsOverTime\<close> holds one pair for every sample of the first series of
  its dimension, in the order of the series, nothing removed and nothing added; the
  series after the first one are not read.
\<close>

theorem C2_first_series_kept_in_order:
  assumes "GetLocalStorageQuery D offset = Inr l"
    and "time_Parse D layout startString = Inr start"
    and "time_Parse D layout endString = Inr end'"
    and "time_ParseDuration D ws = Inr window"
    and "QueryRange D (qCores ws (rewrite_offset offset)) start end' window = Inr rc"
    and "QueryRange D (qRAM ws (rewrite_offset offset)) start end' window = Inr rr"
    and "QueryRange D (qStorage ws (rewrite_offset offset) (plus_localStorageQuery l))
           start end' window = Inr rs"
    and "QueryRange D (qTotal (plus_localStorageQuery l)) start end' window = Inr rt"
    and "NewQueryResults D rc = Inr (c # cs)"
    and "NewQueryResults D rr = Inr (r # rs')"
    and "NewQueryResults D rs = Inr (s # ss)"
    and "NewQueryResults D rt = Inr (t # ts)"
  shows "snd (ClusterCostsOverTime D startString endString ws offset w) =
      Inr \<lparr>TotalCost = map (toAppend D) (Values t),
           CPUCost = map (toAppend D) (Values c),
           MemCost = map (toAppend D) (Values r),
           StorageCost = map (toAppend D) (Values s)\<rparr>"
  using assms(9-12)
  by (simp add: ClusterCostsOverTime_ok [OF assms(1-8)] resultToTotals_ok)

theorem C2_first_series_kept_in_order_witness:
  "snd (ClusterCostsOverTime
          (example_deps [series (Some ''cluster-one'') [(1, 10), (2, 20), (3, 30)]])
          ''2020-01-01T00:00:00.000Z'' ''2020-01-02T00:00:00.000Z'' ''1h'' [] world0) =
      Inr \<lparr>TotalCost = [[''1.000000'', ''10.000000''], [''2.000000'', ''20.000000''],
                        [''3.000000'', ''30.000000'']],
           CPUCost = [[''1.000000'', ''10.000000''], [''2.000000'', ''20.000000''],
                      [''3.000000'', ''30.000000'']],
           MemCost = [[''1.000000'', ''10.000000''], [''2.000000'', ''20.000000''],
                      [''3.000000'', ''30.000000'']],
           StorageCost = [[''1.000000'', ''10.000000''], [''2.000000'', ''20.000000''],
                          [''3.000000'', ''30.000000'']]\<rparr>"
  using C2_first_series_kept_in_order [of "example_deps [series (Some ''cluster-one'') [(1, 10), (2, 20), (3, 30)]]"
      "[]" "[]" "''2020-01-01T00:00:00.000Z''" 0 "''2020-01-02T00:00:00.000Z''" 0 "''1h''" 3600
      "[series (Some ''cluster-one'') [(1, 10), (2, 20), (3, 30)]]" "[series (Some ''cluster-one'') [(1, 10), (2, 20), (3, 30)]]" "[series (Some ''cluster-one'') [(1, 10), (2, 20), (3, 30)]]" "[series (Some ''cluster-one'') [(1, 10), (2, 20), (3, 30)]]"
      "series (Some ''cluster-one'') [(1, 10), (2, 20), (3, 30)]" "[]"
      "series (Some ''cluster-one'') [(1, 10), (2, 20), (3, 30)]" "[]"
      "series (Some ''cluster-one'') [(1, 10), (2, 20), (3, 30)]" "[]"
      "series (Some ''cluster-one'') [(1, 10), (2, 20), (3, 30)]" "[]" world0]
  by (simp add: example_simps)

text \<open>
  Claim C2 as stated fails on a response with two series: the sample of the second
  series is in no field of the result.
\<close>

theorem C2_later_series_dropped:
  "snd (ClusterCostsOverTime
          (example_deps [series (Some ''cluster-one'') [(1, 10), (2, 20)],
                         series (Some ''cluster-two'') [(1, 40)]])
          ''2020-01-01T00:00:00.000Z'' ''2020-01-02T00:00:00.000Z'' ''1h'' [] world0) =
      Inr \<lparr>TotalCost = [[''1.000000'', ''10.000000''], [''2.000000'', ''20.000000'']],
           CPUCost = [[''1.000000'', ''10.000000''], [''2.000000'', ''20.000000'']],
           MemCost = [[''1.000000'', ''10.000000''], [''2.000000'', ''20.000000'']],
           StorageCost = [[''1.000000'', ''10.000000''], [''2.000000'', ''20.000000'']]\<rparr>
   \<and> [''1.000000'', ''40.000000'']
       \<notin> set [[''1.000000'', ''10.000000''], [''2.000000'', ''20.000000'']]"
  by (simp add: ClusterCostsOverTime_ok
        [where l = "[]" and start = 0 and end' = 0 and window = 3600]
      resultToTotals_def resultToTotals_loop_eq example_simps)

subsection \<open>The single-total policy\<close>

text \<open>
  Claim C3, as amended. When the provider and the four queries succeed and the four
  responses parse, each field of the result of \<^verbatim>\<open>ClusterCosts\<close> is the entry of its
  dimension for the default cluster identifier: the one-element list holding the first
  sample of the first series, among those of the dimension that have a sample, whose
  \<^verbatim>\<open>cluster_id\<close> label is absent, empty or equal to the default identifier, and the
  empty list when the dimension has no such series. The label is not ignored.
\<close>

theorem C3_default_cluster_entry:
  assumes "GetLocalStorageQuery D (rewrite_offset offset) = Inr l"
    and "Query D (qCores ws (rewrite_offset offset)) = Inr rc"
    and "Query D (qRAM ws (rewrite_offset offset)) = Inr rr"
    and "Query D (qStorage ws (rewrite_offset offset) (plus_localStorageQuery l)) = Inr rs"
    and "Query D (qTotal (plus_localStorageQuery l)) = Inr rt"
    and "NewQueryResults D rc = Inr sc"
    and "NewQueryResults D rr = Inr sr"
    and "NewQueryResults D rs = Inr ss"
    and "NewQueryResults D rt = Inr st"
  shows "snd (ClusterCosts D ws offset w) =
      Inr \<lparr>TotalCost = default_total D st,
           CPUCost = default_total D sc,
           MemCost = default_total D sr,
           StorageCost = default_total D ss\<rparr>"
  by (simp add: ClusterCosts_ok [OF assms])

theorem C3_default_cluster_entry_witness:
  "snd (ClusterCosts (example_deps [series (Some ''cluster-two'') [(100, 3)],
                                    series None [(100, 5), (160, 6)]])
          ''1d'' ''3h'' world0) =
      Inr \<lparr>TotalCost = [[''100.000000'', ''5.000000'']],
           CPUCost = [[''100.000000'', ''5.000000'']],
           MemCost = [[''100.000000'', ''5.000000'']],
           StorageCost = [[''100.000000'', ''5.000000'']]\<rparr>"
  using C3_default_cluster_entry [of
      "example_deps [series (Some ''cluster-two'') [(100, 3)], series None [(100, 5), (160, 6)]]" "''3h''" "[]" "''1d''" "[series (Some ''cluster-two'') [(100, 3)], series None [(100, 5), (160, 6)]]" "[series (Some ''cluster-two'') [(100, 3)], series None [(100, 5), (160, 6)]]" "[series (Some ''cluster-two'') [(100, 3)], series None [(100, 5), (160, 6)]]" "[series (Some ''cluster-two'') [(100, 3)], series None [(100, 5), (160, 6)]]" "[series (Some ''cluster-two'') [(100, 3)], series None [(100, 5), (160, 6)]]" "[series (Some ''cluster-two'') [(100, 3)], series None [(100, 5), (160, 6)]]" "[series (Some ''cluster-two'') [(100, 3)], series None [(100, 5), (160, 6)]]" "[series (Some ''cluster-two'') [(100, 3)], series None [(100, 5), (160, 6)]]" world0]
  by (simp add: example_simps default_total_def)

text \<open>
  Claim C3 as stated fails on a series labelled with another cluster: every dimension
  returns one series with one sample, and every field of the result is empty.
\<close>

theorem C3_label_not_ignored:
  "snd (ClusterCosts (example_deps [series (Some ''cluster-two'') [(100, 5)]])
          ''1d'' [] world0) =
      Inr \<lparr>TotalCost = [], CPUCost = [], MemCost = [], StorageCost = []\<rparr>"
  by (simp add: ClusterCosts_ok [where l = "[]"] example_simps default_total_def)

subsection \<open>Responses without usable series\<close>

lemma range_assign_empty: "range_assign f Map.empty m = m"
  by (rule ext) (simp add: range_assign_def)

lemma per_cluster_unusable:
  "\<forall>r\<in>set rs. Values r = [] \<Longrightarrow> per_cluster D rs = Map.empty"
  by (rule ext) (simp add: per_cluster_def find_None_iff split: option.splits)

lemma default_total_unusable:
  "\<forall>r\<in>set rs. Values r = [] \<Longrightarrow> default_total D rs = []"
  by (simp add: default_total_def find_None_iff split: option.splits)

text \<open>
  Claim C4, as amended. A dimension has no usable series when its response holds no
  series with a sample (no series at all, or only series without samples). When the
  provider and the queries succeed and the responses parse, neither snapshot call
  fails for such a dimension: \<^verbatim>\<open>ClusterCosts\<close> returns totals whose field for that
  dimension is empty, and \<^verbatim>\<open>ClusterCostsForAllClusters\<close> returns a map in which no
  cluster has that dimension's field set (the empty map when none of its three
  dimensions has a usable series).
\<close>

theorem C4_no_usable_series:
  assumes "GetLocalStorageQuery D (rewrite_offset offset) = Inr l"
    and "Query D (qCores ws (rewrite_offset offset)) = Inr rc"
    and "Query D (qRAM ws (rewrite_offset offset)) = Inr rr"
    and "Query D (qStorage ws (rewrite_offset offset) (plus_localStorageQuery l)) = Inr rs"
    and "Query D (qTotal (plus_localStorageQuery l)) = Inr rt"
    and "NewQueryResults D rc = Inr sc"
    and "NewQueryResults D rr = Inr sr"
    and "NewQueryResults D rs = Inr ss"
    and "NewQueryResults D rt = Inr st"
  shows "(case snd (ClusterCosts D ws offset w) of
            Inl err \<Rightarrow> False
          | Inr totals \<Rightarrow>
              ((\<forall>r\<in>set sc. Values r = []) \<longrightarrow> CPUCost totals = []) \<and>
              ((\<forall>r\<in>set sr. Values r = []) \<longrightarrow> MemCost totals = []) \<and>
              ((\<forall>r\<in>set ss. Values r = []) \<longrightarrow> StorageCost totals = []) \<and>
              ((\<forall>r\<in>set st. Values r = []) \<longrightarrow> TotalCost totals = []))
       \<and> (case snd (ClusterCostsForAllClusters D ws offset w) of
            Inl err \<Rightarrow> False
          | Inr toReturn \<Rightarrow>
              ((\<forall>r\<in>set sc. Values r = []) \<longrightarrow>
                 (\<forall>k t. toReturn k = Some t \<longrightarrow> CPUCost t = [])) \<and>
              ((\<forall>r\<in>set sr. Values r = []) \<longrightarrow>
                 (\<forall>k t. toReturn k = Some t \<longrightarrow> MemCost t = [])) \<and>
              ((\<forall>r\<in>set ss. Values r = []) \<longrightarrow>
                 (\<forall>k t. toReturn k = Some t \<longrightarrow> StorageCost t = [])) \<and>
              ((\<forall>r\<in>set sc. Values r = []) \<and> (\<forall>r\<in>set sr. Values r = []) \<and>
               (\<forall>r\<in>set ss. Values r = []) \<longrightarrow> toReturn = Map.empty))"
proof -
  have "snd (ClusterCosts D ws offset w) =
      Inr \<lparr>TotalCost = default_total D st, CPUCost = default_total D sc,
           MemCost = default_total D sr, StorageCost = default_total D ss\<rparr>"
    by (simp add: ClusterCosts_ok [OF assms])
  then have a: "(case snd (ClusterCosts D ws offset w) of
            Inl err \<Rightarrow> False
          | Inr totals \<Rightarrow>
              ((\<forall>r\<in>set sc. Values r = []) \<longrightarrow> CPUCost totals = []) \<and>
              ((\<forall>r\<in>set sr. Values r = []) \<longrightarrow> MemCost totals = []) \<and>
              ((\<forall>r\<in>set ss. Values r = []) \<longrightarrow> StorageCost totals = []) \<and>
              ((\<forall>r\<in>set st. Values r = []) \<longrightarrow> TotalCost totals = []))"
    by (simp add: default_total_unusable)
  have b: "(case snd (ClusterCostsForAllClusters D ws offset w) of
            Inl err \<Rightarrow> False
          | Inr toReturn \<Rightarrow>
              ((\<forall>r\<in>set sc. Values r = []) \<longrightarrow>
                 (\<forall>k t. toReturn k = Some t \<longrightarrow> CPUCost t = [])) \<and>
              ((\<forall>r\<in>set sr. Values r = []) \<longrightarrow>
                 (\<forall>k t. toReturn k = Some t \<longrightarrow> MemCost t = [])) \<and>
              ((\<forall>r\<in>set ss. Values r = []) \<longrightarrow>
                 (\<forall>k t. toReturn k = Some t \<longrightarrow> StorageCost t = [])) \<and>
              ((\<forall>r\<in>set sc. Values r = []) \<and> (\<forall>r\<in>set sr. Values r = []) \<and>
               (\<forall>r\<in>set ss. Values r = []) \<longrightarrow> toReturn = Map.empty))"
    unfolding ClusterCostsForAllClusters_ok [OF assms(1-4) assms(6-8)]
    by (auto simp: per_cluster_unusable range_assign_empty range_assign_def Totals_zero_def
        split: option.splits)
  from a b show ?thesis by blast
qed

theorem C4_no_usable_series_witness:
  "snd (ClusterCosts (example_deps [series (Some ''cluster-one'') []]) ''1d'' ''3h'' world0)
     = Inr \<lparr>TotalCost = [], CPUCost = [], MemCost = [], StorageCost = []\<rparr>
   \<and> snd (ClusterCostsForAllClusters (example_deps [series (Some ''cluster-one'') []])
            ''1d'' ''3h'' world0) = Inr Map.empty"
proof -
  note th = C4_no_usable_series [of "example_deps [series (Some ''cluster-one'') []]"
      "''3h''" "[]" "''1d''"
      "[series (Some ''cluster-one'') []]" "[series (Some ''cluster-one'') []]"
      "[series (Some ''cluster-one'') []]" "[series (Some ''cluster-one'') []]"
      "[series (Some ''cluster-one'') []]" "[series (Some ''cluster-one'') []]"
      "[series (Some ''cluster-one'') []]" "[series (Some ''cluster-one'') []]" world0]
  have "snd (ClusterCosts (example_deps [series (Some ''cluster-one'') []]) ''1d'' ''3h'' world0)
     = Inr \<lparr>TotalCost = [], CPUCost = [], MemCost = [], StorageCost = []\<rparr>"
    using th by (simp add: example_simps split: sum.splits)
  moreover
  have "snd (ClusterCostsForAllClusters (example_deps [series (Some ''cluster-one'') []])
            ''1d'' ''3h'' world0) = Inr Map.empty"
    using th by (simp add: example_simps split: sum.splits)
  ultimately show ?thesis by simp
qed

text \<open>
  Claim C4 as stated fails for \<^verbatim>\<open>ClusterCosts\<close>: every dimension returns no series and
  the call returns totals, not an error.
\<close>

theorem C4_ClusterCosts_does_not_fail:
  "snd (ClusterCosts (example_deps []) ''1d'' [] world0) =
      Inr \<lparr>TotalCost = [], CPUCost = [], MemCost = [], StorageCost = []\<rparr>"
  by (simp add: ClusterCosts_ok [where l = "[]"] example_simps default_total_def)

subsection \<open>The code at inputs where it departs from its description\<close>

text \<open>
  Claim C1, the code at an input where it does not do what the claim says. Each
  dimension returns a series without \<^verbatim>\<open>cluster_id\<close> label and a series labelled with the
  default identifier \<^verbatim>\<open>cluster-one\<close>, each with one sample. Both belong to
  \<^verbatim>\<open>cluster-one\<close>; the entry of \<^verbatim>\<open>cluster-one\<close> holds the pair of the first series
  only: the result of \<^verbatim>\<open>append\<close> is assigned to the local \<open>t\<close> and never stored.
\<close>

theorem C1_second_sample_not_appended:
  "(case snd (ClusterCostsForAllClusters
                (example_deps [series None [(100, 5)], series (Some ''cluster-one'') [(100, 7)]])
                ''1d'' [] world0) of
      Inl err \<Rightarrow> None
    | Inr toReturn \<Rightarrow> toReturn ''cluster-one'')
   = Some \<lparr>TotalCost = [],
           CPUCost = [[''100.000000'', ''5.000000'']],
           MemCost = [[''100.000000'', ''5.000000'']],
           StorageCost = [[''100.000000'', ''5.000000'']]\<rparr>"
  by (simp add: ClusterCostsForAllClusters_ok [where l = "[]"] example_simps range_assign_def
      per_cluster_def clusterID_of_def Totals_zero_def)

text \<open>
  Claim C7, the code at an input where it does not do what the claim says. The second
  series has no \<^verbatim>\<open>cluster_id\<close> label and one sample, and the default identifier
  \<^verbatim>\<open>cluster-one\<close> already has an entry from the first series: the sample of the
  unlabelled series is under no key of the map.
\<close>

theorem C7_unlabelled_sample_dropped:
  "snd (resultToTotal (example_deps [])
          [series (Some ''cluster-one'') [(100, 5)], series None [(100, 7)]] world0)
   = Inr [''cluster-one'' \<mapsto> [[''100.000000'', ''5.000000'']]]"
  by (simp add: resultToTotal_def GetString_def example_simps)

text \<open>
  Claim C5, the code at an input where it does not do what the claim says. The backend
  answers and the parser rejects the response: \<^verbatim>\<open>ClusterCosts\<close> (window \<^verbatim>\<open>1d\<close>) and
  \<^verbatim>\<open>ClusterCostsOverTime\<close> (step \<^verbatim>\<open>1h\<close>, which \<^verbatim>\<open>time.ParseDuration\<close> accepts) return
  the parser's error as it is, without the query; \<^verbatim>\<open>ClusterCostsForAllClusters\<close>
  returns it wrapped with the text of the query.
\<close>

theorem C5_parse_error_not_wrapped:
  "snd (ClusterCosts bad_payload_deps ''1d'' [] world0) = Inl ''malformed payload''
   \<and> snd (ClusterCostsOverTime bad_payload_deps ''2020-01-01T00:00:00.000Z''
            ''2020-01-02T00:00:00.000Z'' ''1h'' [] world0) = Inl ''malformed payload''
   \<and> snd (ClusterCostsForAllClusters bad_payload_deps ''1d'' [] world0)
       = Inl (''Error for query '' @ qCores ''1d'' [] @ '': malformed payload'')"
  by (simp add: bad_payload_deps_def ClusterCosts_def ClusterCostsOverTime_def
      ClusterCostsForAllClusters_def Let_def on_err_def call_GetLocalStorageQuery_def
      call_Query_def call_QueryRange_def parse_logged_def ret_def resultToTotal_def
      resultToTotals_def error_for_query_def example_simps)

end
